theory Spec2Isabelle
  imports Main
begin

section \<open>Python values, exceptions and the console\<close>

text \<open>
  The service (\<^verbatim>\<open>src/app/app.py\<close>) builds a prompt from ABAP source text, sends it to a
  chat model, recovers a JSON value from the reply, strips the \<^verbatim>\<open>type\<close> key from every
  declaration and answers with a JSON body.

  A Python \<^verbatim>\<open>str\<close> is modelled as \<^typ>\<open>string\<close>, one \<^typ>\<open>char\<close> per code point; the
  characters are therefore the code points U+0000 to U+00FF.  Of the code points beyond,
  the code treats only further white space specially (in \<^verbatim>\<open>\s\<close> and \<^verbatim>\<open>str.strip\<close>).

  \<open>json\<close> is the type of the values \<^verbatim>\<open>json.loads\<close> returns: \<^verbatim>\<open>None\<close>, \<^verbatim>\<open>bool\<close>,
  \<^verbatim>\<open>int\<close>, \<^verbatim>\<open>float\<close>, \<^verbatim>\<open>str\<close>, \<^verbatim>\<open>list\<close> and \<^verbatim>\<open>dict\<close>.  A \<^verbatim>\<open>dict\<close> is an association
  list in insertion order.  A \<^verbatim>\<open>float\<close> is kept as a numeral that denotes it.
\<close>

datatype json =
    JNull
  | JBool bool
  | JInt int
  | JFloat string
  | JStr string
  | JArr "json list"
  | JObj "(string \<times> json) list"

text \<open>
  Exceptions are values.  All of them except \<open>HTTPException\<close> are subclasses of Python's
  \<^verbatim>\<open>Exception\<close> raised by library code; \<open>UpstreamError\<close> stands for whatever the
  model service's client raises (network, authentication, quota).
\<close>

datatype exn =
    JSONDecodeError
  | RecursionError
  | TypeError
  | AttributeError
  | IndexError
  | ValueError
  | UpstreamError string
  | HTTPException nat string

text \<open>
  \<^verbatim>\<open>print\<close> appends one line to the console; a line is the list of the printed
  arguments.
\<close>

datatype pitem = PStr string | PExn exn | PNone

type_synonym stdout = "pitem list list"

fun ptext :: "string option \<Rightarrow> pitem" where
  "ptext None = PNone"
| "ptext (Some s) = PStr s"

section \<open>White space\<close>

text \<open>
  The white space of \<^verbatim>\<open>\s\<close> in a \<^verbatim>\<open>str\<close> pattern and of \<^verbatim>\<open>str.strip()\<close>: the
  characters for which \<^verbatim>\<open>str.isspace\<close> holds, here those up to U+00FF.
\<close>

definition py_isspace :: "char \<Rightarrow> bool" where
  "py_isspace c \<longleftrightarrow> c \<in> {CHR 0x09, CHR 0x0A, CHR 0x0B, CHR 0x0C, CHR 0x0D,
     CHR 0x1C, CHR 0x1D, CHR 0x1E, CHR 0x1F, CHR 0x20, CHR 0x85, CHR 0xA0}"

text \<open>\<^verbatim>\<open>s.strip()\<close>: white space removed at both ends.\<close>

definition py_strip :: "string \<Rightarrow> string" where
  "py_strip s = rev (dropWhile py_isspace (rev (dropWhile py_isspace s)))"

section \<open>The two regular expressions\<close>

text \<open>
  \<^verbatim>\<open>re.search\<close> tries the pattern at every start position from the left and, at one
  position, explores the alternatives in the order of a backtracking matcher: a greedy
  quantifier tries the longest repetition first, a lazy one the shortest.  Each function
  below is one suffix of a pattern, anchored at the start of its argument.

  First pattern: \<^verbatim>\<open>```(?:json)?\s*([\s\S]+?)```\<close>; the functions return group 1.
\<close>

definition FENCE :: string where
  "FENCE = [CHR 0x60, CHR 0x60, CHR 0x60]"

text \<open>\<^verbatim>\<open>([\s\S]+?)```\<close>: the shortest non-empty run that a fence marker follows.\<close>

fun lazy_any_fence :: "string \<Rightarrow> string option" where
  "lazy_any_fence [] = None"
| "lazy_any_fence (c # cs) =
     (if take 3 cs = FENCE then Some [c] else map_option ((#) c) (lazy_any_fence cs))"

text \<open>\<^verbatim>\<open>\s*([\s\S]+?)```\<close>: as much white space as possible first, then less.\<close>

fun spaces_group :: "string \<Rightarrow> string option" where
  "spaces_group [] = lazy_any_fence []"
| "spaces_group (c # cs) =
     (if py_isspace c
      then (case spaces_group cs of Some g \<Rightarrow> Some g | None \<Rightarrow> lazy_any_fence (c # cs))
      else lazy_any_fence (c # cs))"

text \<open>\<^verbatim>\<open>(?:json)?\s*([\s\S]+?)```\<close>: with the tag first, then without.\<close>

definition json_tag_group :: "string \<Rightarrow> string option" where
  "json_tag_group s =
     (if take 4 s = ''json''
      then (case spaces_group (drop 4 s) of Some g \<Rightarrow> Some g | None \<Rightarrow> spaces_group s)
      else spaces_group s)"

definition fence_at :: "string \<Rightarrow> string option" where
  "fence_at s = (if take 3 s = FENCE then json_tag_group (drop 3 s) else None)"

text \<open>
  \<^verbatim>\<open>re.search(r"```(?:json)?\s*([\s\S]+?)```", text)\<close> followed by
  \<^verbatim>\<open>match.group(1)\<close>; \<open>None\<close> when there is no match.
\<close>

fun search_fence :: "string \<Rightarrow> string option" where
  "search_fence [] = None"
| "search_fence (c # cs) =
     (case fence_at (c # cs) of Some g \<Rightarrow> Some g | None \<Rightarrow> search_fence cs)"

text \<open>
  Second pattern: \<^verbatim>\<open>(\[\s*{[\s\S]+?}\s*])\<close>; group 1 is the whole match, and the
  functions return the text they matched.  The braces and the closing bracket are
  literals (a brace that starts no repetition count is one).
\<close>

text \<open>\<^verbatim>\<open>\s*]\<close>\<close>

fun spaces_close :: "string \<Rightarrow> string option" where
  "spaces_close [] = None"
| "spaces_close (c # cs) =
     (case (if py_isspace c then spaces_close cs else None) of
        Some m \<Rightarrow> Some (c # m)
      | None \<Rightarrow> if c = CHR '']'' then Some [c] else None)"

text \<open>\<^verbatim>\<open>[\s\S]+?}\s*]\<close>: the shortest non-empty run that a closing brace and bracket follow.\<close>

fun lazy_any_close :: "string \<Rightarrow> string option" where
  "lazy_any_close [] = None"
| "lazy_any_close (c # cs) =
     (case (case cs of [] \<Rightarrow> None
            | d # ds \<Rightarrow> if d = CHR ''}'' then spaces_close ds else None) of
        Some m \<Rightarrow> Some (c # CHR ''}'' # m)
      | None \<Rightarrow> map_option ((#) c) (lazy_any_close cs))"

text \<open>\<^verbatim>\<open>\s*{[\s\S]+?}\s*]\<close>\<close>

fun spaces_open :: "string \<Rightarrow> string option" where
  "spaces_open [] = None"
| "spaces_open (c # cs) =
     (case (if py_isspace c then spaces_open cs else None) of
        Some m \<Rightarrow> Some (c # m)
      | None \<Rightarrow> if c = CHR ''{'' then map_option ((#) c) (lazy_any_close cs) else None)"

definition array_at :: "string \<Rightarrow> string option" where
  "array_at s =
     (case s of [] \<Rightarrow> None
      | c # cs \<Rightarrow> if c = CHR ''['' then map_option ((#) c) (spaces_open cs) else None)"

text \<open>
  \<^verbatim>\<open>re.search(r"(\[\s*{[\s\S]+?}\s*])", text)\<close> followed by \<^verbatim>\<open>match.group(1)\<close>.
\<close>

fun search_array :: "string \<Rightarrow> string option" where
  "search_array [] = None"
| "search_array (c # cs) =
     (case array_at (c # cs) of Some m \<Rightarrow> Some m | None \<Rightarrow> search_array cs)"

section \<open>The prompt builder\<close>

definition INSTRUCTIONS :: string where
  "INSTRUCTIONS =
     ''You are an ABAP code analysis assistant.\<newline>'' @
     ''Analyze the following ABAP code and extract only SELECT-OPTIONS and PARAMETERS declarations (selection screen parameters).\<newline>'' @
     ''For each, return an object with keys: type, name, object, description '' @
     ''(in which '' @ [CHR 0x22] @ ''type'' @ [CHR 0x22] @ '' is the declaration keyword, '' @
     [CHR 0x22] @ ''name'' @ [CHR 0x22] @ '' is the identifier, '' @
     [CHR 0x22] @ ''object'' @ [CHR 0x22] @ '' is the technical reference, and '' @
     [CHR 0x22] @ ''description'' @ [CHR 0x22] @ '' is a one-sentence explanation).\<newline>'' @
     ''**Return the result as a raw JSON array, with NO prose, no markdown, no code block, and no explanation. Only output a single array.**\<newline>\<newline>''"

text \<open>\<^verbatim>\<open>abap_lm_prompt\<close>: the fixed instructions, then \<^verbatim>\<open>f'{code}'\<close>.\<close>

definition abap_lm_prompt :: "string \<Rightarrow> string" where
  "abap_lm_prompt code = INSTRUCTIONS @ code"

section \<open>The response extractor\<close>

text \<open>
  \<^verbatim>\<open>json.loads\<close> belongs to Python's library: the extractor takes it as the parameter
  \<open>loads\<close>, which returns the parsed value or the exception it raises.

  \<open>try_block\<close> is the body of the \<^verbatim>\<open>try\<close> statement.  The argument is what the caller
  passes, the reply's \<^verbatim>\<open>content\<close>, a \<^verbatim>\<open>str\<close> or \<^verbatim>\<open>None\<close>; on \<^verbatim>\<open>None\<close> the first
  \<^verbatim>\<open>re.search\<close> raises \<^verbatim>\<open>TypeError\<close>.  A match object is always true, so
  \<^verbatim>\<open>if match\<close> tests that there is a match.
\<close>

definition try_block :: "(string \<Rightarrow> exn + json) \<Rightarrow> string option \<Rightarrow> exn + json" where
  "try_block loads text =
     (case text of
        None \<Rightarrow> Inl TypeError
      | Some t \<Rightarrow>
          (case search_fence t of
             Some snippet \<Rightarrow> loads snippet
           | None \<Rightarrow>
               (case search_array t of
                  Some snippet \<Rightarrow> loads snippet
                | None \<Rightarrow> loads t)))"

text \<open>
  \<^verbatim>\<open>extract_json_from_text\<close>: the \<^verbatim>\<open>try\<close> block, and the handler of
  \<^verbatim>\<open>except Exception\<close>, which prints three lines and returns the empty list.  The
  result is \<open>Inr\<close> of the value returned, or \<open>Inl\<close> of an exception leaving the function.
\<close>

definition extract_json_from_text ::
  "(string \<Rightarrow> exn + json) \<Rightarrow> string option \<Rightarrow> stdout \<Rightarrow> (exn + json) \<times> stdout" where
  "extract_json_from_text loads text out =
     (case try_block loads text of
        Inr v \<Rightarrow> (Inr v, out)
      | Inl e \<Rightarrow>
          (Inr (JArr []),
           out @ [[PStr ''!! Failed to extract JSON:'', PExn e],
                  [PStr ''!! Offending content:''],
                  [ptext text]]))"

section \<open>The declaration sanitizer\<close>

text \<open>\<^verbatim>\<open>d.pop(key, None)\<close> on a \<^verbatim>\<open>dict\<close>: the key is removed when present.\<close>

definition dict_pop :: "string \<Rightarrow> (string \<times> json) list \<Rightarrow> (string \<times> json) list" where
  "dict_pop key d = filter (\<lambda>kv. fst kv \<noteq> key) d"

text \<open>
  \<^verbatim>\<open>decl.pop("type", None)\<close> on any value.  A \<^verbatim>\<open>list\<close> has a \<^verbatim>\<open>pop\<close> that takes at
  most one argument (\<^verbatim>\<open>TypeError\<close>); the other values have no \<^verbatim>\<open>pop\<close>
  (\<^verbatim>\<open>AttributeError\<close>).
\<close>

fun decl_pop :: "json \<Rightarrow> exn + json" where
  "decl_pop (JObj d) = Inr (JObj (dict_pop ''type'' d))"
| "decl_pop (JArr xs) = Inl TypeError"
| "decl_pop v = Inl AttributeError"

text \<open>The loop over the elements of a list; the first exception ends it.\<close>

fun pop_each :: "json list \<Rightarrow> exn + json list" where
  "pop_each [] = Inr []"
| "pop_each (decl # decls) =
     (case decl_pop decl of
        Inl e \<Rightarrow> Inl e
      | Inr decl' \<Rightarrow>
          (case pop_each decls of Inl e \<Rightarrow> Inl e | Inr decls' \<Rightarrow> Inr (decl' # decls')))"

text \<open>
  \<^verbatim>\<open>for decl in declarations: decl.pop("type", None)\<close>, returning \<open>declarations\<close> as
  the loop leaves it.  A \<^verbatim>\<open>dict\<close> iterates over its keys and a \<^verbatim>\<open>str\<close> over its
  characters, all of them strings; the other values are not iterable.
\<close>

fun remove_type :: "json \<Rightarrow> exn + json" where
  "remove_type (JArr decls) =
     (case pop_each decls of Inl e \<Rightarrow> Inl e | Inr decls' \<Rightarrow> Inr (JArr decls'))"
| "remove_type (JObj d) = (if d = [] then Inr (JObj d) else Inl AttributeError)"
| "remove_type (JStr s) = (if s = [] then Inr (JStr s) else Inl AttributeError)"
| "remove_type v = Inl TypeError"

section \<open>The model call and the endpoint\<close>

record chat_request =
  model :: string
  messages :: "(string \<times> string) list"
  max_tokens :: nat
  temperature :: nat

text \<open>Of a completion the code reads \<^verbatim>\<open>choices[i].message.content\<close> only.\<close>

record completion =
  choices :: "string option list"

text \<open>
  What the endpoint uses and this repository does not define: the client's
  \<^verbatim>\<open>chat.completions.create\<close>, \<^verbatim>\<open>json.loads\<close>, and the rendering of the body that
  the constructor of \<^verbatim>\<open>JSONResponse\<close> performs.
\<close>

record env =
  create_fn :: "chat_request \<Rightarrow> exn + completion"
  loads_fn :: "string \<Rightarrow> exn + json"
  render_fn :: "json \<Rightarrow> exn + string"

text \<open>The state a request can change: the console, and the calls made to the model.\<close>

record state =
  console :: stdout
  calls :: "chat_request list"

text \<open>The arguments of \<^verbatim>\<open>client.chat.completions.create\<close> in \<^verbatim>\<open>_call_openai\<close>.\<close>

definition call_openai :: "string \<Rightarrow> chat_request" where
  "call_openai prompt =
     \<lparr>model = ''gpt-4.1'',
      messages = [(''system'', ''You are a helpful code assistant.''), (''user'', prompt)],
      max_tokens = 1500,
      temperature = 0\<rparr>"

text \<open>
  \<^verbatim>\<open>abap_llm_declarations\<close>: one call to the model, recorded in the state; the reply's
  text is \<^verbatim>\<open>response.choices[0].message.content\<close> (\<^verbatim>\<open>IndexError\<close> without choices).
\<close>

definition abap_llm_declarations :: "env \<Rightarrow> string \<Rightarrow> state \<Rightarrow> (exn + json) \<times> state" where
  "abap_llm_declarations e code st =
     (let prompt = abap_lm_prompt code;
          req = call_openai prompt;
          st1 = st\<lparr>calls := calls st @ [req]\<rparr>
      in case create_fn e req of
           Inl ex \<Rightarrow> (Inl ex, st1)
         | Inr response \<Rightarrow>
             (case choices response of
                [] \<Rightarrow> (Inl IndexError, st1)
              | resp_text # _ \<Rightarrow>
                  (let out = console st1 @
                         [[PStr ''===== LLM raw output begin =====''],
                          [ptext resp_text],
                          [PStr ''===== LLM raw output end   ====='']];
                       (declarations, out') = extract_json_from_text (loads_fn e) resp_text out
                   in (declarations, st1\<lparr>console := out'\<rparr>))))"

record ABAPCode =
  code :: string
  pgm_name :: string
  inc_name :: string
  type_field :: string

datatype response = JSONResponse nat string

definition response_body :: "ABAPCode \<Rightarrow> json \<Rightarrow> json" where
  "response_body input declarations =
     JObj [(''pgm_name'', JStr (pgm_name input)),
           (''inc_name'', JStr (inc_name input)),
           (''type'', JStr (type_field input)),
           (''selectionscreen'', declarations)]"

text \<open>
  \<^verbatim>\<open>abap_declarations_api\<close>.  The request has been validated by the framework, so
  \<open>code\<close> is a string and the test \<^verbatim>\<open>isinstance(code, str)\<close> holds.  A
  \<^verbatim>\<open>JSONResponse\<close> has status 200 unless told otherwise.
\<close>

definition abap_declarations_api :: "env \<Rightarrow> ABAPCode \<Rightarrow> state \<Rightarrow> (exn + response) \<times> state" where
  "abap_declarations_api e input st =
     (if py_strip (code input) = []
      then (Inl (HTTPException 400 (''Missing or empty '' @ [CHR 0x27] @ ''code'' @ [CHR 0x27] @ '' field.'')), st)
      else
        (case abap_llm_declarations e (code input) st of
           (Inl ex, st1) \<Rightarrow> (Inl ex, st1)
         | (Inr declarations, st1) \<Rightarrow>
             (case remove_type declarations of
                Inl ex \<Rightarrow> (Inl ex, st1)
              | Inr declarations' \<Rightarrow>
                  (case render_fn e (response_body input declarations') of
                     Inl ex \<Rightarrow> (Inl ex, st1)
                   | Inr body \<Rightarrow> (Inr (JSONResponse 200 body), st1)))))"

section \<open>Python's \<^verbatim>\<open>json\<close> module\<close>

text \<open>
  The theorems about all texts take \<^verbatim>\<open>json.loads\<close> as an arbitrary function.  The
  examples need the values of \<^verbatim>\<open>json.loads\<close> at concrete texts, which \<open>json_loads\<close>
  computes as the library's decoder does: the same grammar, the same order of checks.
  Three departures, none met by an example: a numeral with a fraction or an exponent
  becomes \<open>JFloat\<close> of the numeral as written rather than of the nearest double (so a
  numeral too large for a double, which Python reads as infinity, stays a numeral); an
  escape \<^verbatim>\<open>\uXXXX\<close> beyond U+00FF, which names a character outside \<^typ>\<open>char\<close>, is
  reported as undecodable; and the interpreter's recursion limit, which makes the
  decoder raise on very deep nesting, is left out.
\<close>

definition json_ws :: "char \<Rightarrow> bool" where
  "json_ws c \<longleftrightarrow> c \<in> {CHR 0x20, CHR 0x09, CHR 0x0A, CHR 0x0D}"

definition skip_ws :: "string \<Rightarrow> string" where
  "skip_ws s = dropWhile json_ws s"

definition is_digit :: "char \<Rightarrow> bool" where
  "is_digit c \<longleftrightarrow> c \<in> set ''0123456789''"

definition digit_val :: "char \<Rightarrow> nat" where
  "digit_val c = of_char c - 48"

definition nat_of_digits :: "string \<Rightarrow> nat" where
  "nat_of_digits ds = foldl (\<lambda>n c. 10 * n + digit_val c) 0 ds"

definition hex_val :: "char \<Rightarrow> nat option" where
  "hex_val c =
     (if is_digit c then Some (digit_val c)
      else if c \<in> set ''abcdef'' then Some (of_char c - 87)
      else if c \<in> set ''ABCDEF'' then Some (of_char c - 55)
      else None)"

definition hex4 :: "char \<Rightarrow> char \<Rightarrow> char \<Rightarrow> char \<Rightarrow> nat option" where
  "hex4 a b c d =
     (case (hex_val a, hex_val b, hex_val c, hex_val d) of
        (Some x, Some y, Some z, Some w) \<Rightarrow> Some (((x * 16 + y) * 16 + z) * 16 + w)
      | _ \<Rightarrow> None)"

text \<open>The character a one-letter escape stands for.\<close>

definition unescape :: "char \<Rightarrow> char option" where
  "unescape c =
     (if c = CHR 0x22 then Some (CHR 0x22)
      else if c = CHR 0x5C then Some (CHR 0x5C)
      else if c = CHR ''/'' then Some (CHR ''/'')
      else if c = CHR ''b'' then Some (CHR 0x08)
      else if c = CHR ''f'' then Some (CHR 0x0C)
      else if c = CHR ''n'' then Some (CHR 0x0A)
      else if c = CHR ''r'' then Some (CHR 0x0D)
      else if c = CHR ''t'' then Some (CHR 0x09)
      else None)"

definition cons_result :: "char \<Rightarrow> (string \<times> string) option \<Rightarrow> (string \<times> string) option" where
  "cons_result c r = map_option (\<lambda>(x, rest). (c # x, rest)) r"

text \<open>
  A string, read from behind its opening quote: the decoded characters and the text
  behind the closing quote.  Control characters are refused (the decoder is strict).
\<close>

fun scanstring :: "string \<Rightarrow> (string \<times> string) option" where
  "scanstring [] = None"
| "scanstring (c # cs) =
     (if c = CHR 0x22 then Some ([], cs)
      else if c = CHR 0x5C then
        (case cs of
           [] \<Rightarrow> None
         | e # es \<Rightarrow>
             if e = CHR ''u'' then
               (case es of
                  h1 # h2 # h3 # h4 # r \<Rightarrow>
                    (case hex4 h1 h2 h3 h4 of
                       None \<Rightarrow> None
                     | Some n \<Rightarrow> if n < 256 then cons_result (char_of n) (scanstring r) else None)
                | _ \<Rightarrow> None)
             else
               (case unescape e of
                  None \<Rightarrow> None
                | Some d \<Rightarrow> cons_result d (scanstring es)))
      else if (of_char c :: nat) < 32 then None
      else cons_result c (scanstring cs))"

text \<open>
  A numeral: \<^verbatim>\<open>(-?(?:0|[1-9]\d*))(\.\d+)?([eE][-+]?\d+)?\<close>, an \<^verbatim>\<open>int\<close> when it has
  neither fraction nor exponent.
\<close>

definition scan_int_part :: "string \<Rightarrow> (string \<times> string) option" where
  "scan_int_part s =
     (case s of
        [] \<Rightarrow> None
      | c # cs \<Rightarrow>
          if c = CHR ''0'' then Some ([c], cs)
          else if is_digit c then Some (c # takeWhile is_digit cs, dropWhile is_digit cs)
          else None)"

definition scan_frac :: "string \<Rightarrow> string \<times> string" where
  "scan_frac s =
     (case s of
        [] \<Rightarrow> ([], s)
      | c # cs \<Rightarrow>
          if c = CHR ''.'' \<and> takeWhile is_digit cs \<noteq> []
          then (c # takeWhile is_digit cs, dropWhile is_digit cs)
          else ([], s))"

definition scan_exp :: "string \<Rightarrow> string \<times> string" where
  "scan_exp s =
     (case s of
        [] \<Rightarrow> ([], s)
      | c # cs \<Rightarrow>
          if c = CHR ''e'' \<or> c = CHR ''E'' then
            (let (sign, ds) =
                   (case cs of
                      [] \<Rightarrow> ([], cs)
                    | d # r \<Rightarrow> if d = CHR ''-'' \<or> d = CHR ''+'' then ([d], r) else ([], cs))
             in if takeWhile is_digit ds \<noteq> []
                then (c # sign @ takeWhile is_digit ds, dropWhile is_digit ds)
                else ([], s))
          else ([], s))"

definition scan_number :: "string \<Rightarrow> (json \<times> string) option" where
  "scan_number s =
     (let (sign, s1) =
            (case s of
               [] \<Rightarrow> ([], s)
             | c # cs \<Rightarrow> if c = CHR ''-'' then ([c], cs) else ([], s))
      in case scan_int_part s1 of
           None \<Rightarrow> None
         | Some (ds, r) \<Rightarrow>
             (let (frac, r1) = scan_frac r;
                  (ex, r2) = scan_exp r1
              in if frac = [] \<and> ex = []
                 then Some (JInt (if sign = [] then int (nat_of_digits ds)
                                  else - int (nat_of_digits ds)), r2)
                 else Some (JFloat (sign @ ds @ frac @ ex), r2)))"

text \<open>
  \<^verbatim>\<open>dict(pairs)\<close>: a key met again keeps its place and takes the later value.
\<close>

fun dict_set :: "(string \<times> json) list \<Rightarrow> string \<Rightarrow> json \<Rightarrow> (string \<times> json) list" where
  "dict_set [] k v = [(k, v)]"
| "dict_set (p # ps) k v = (if fst p = k then (k, v) # ps else p # dict_set ps k v)"

definition dict_of :: "(string \<times> json) list \<Rightarrow> (string \<times> json) list" where
  "dict_of pairs = foldl (\<lambda>d p. dict_set d (fst p) (snd p)) [] pairs"

text \<open>
  The decoder is recursive; the first argument bounds the number of nested calls, and
  \<open>json_loads\<close> starts it with more than the text can use.  \<open>scan_once\<close> reads one
  value; \<open>parse_array\<close> reads the elements from the first one on, \<open>parse_object\<close> the
  members from the first key on.
\<close>

fun scan_once :: "nat \<Rightarrow> string \<Rightarrow> (json \<times> string) option"
  and parse_array :: "nat \<Rightarrow> string \<Rightarrow> (json list \<times> string) option"
  and parse_object :: "nat \<Rightarrow> string \<Rightarrow> ((string \<times> json) list \<times> string) option"
where
  "scan_once 0 s = None"
| "scan_once (Suc n) s =
     (case s of
        [] \<Rightarrow> None
      | c # cs \<Rightarrow>
          if c = CHR 0x22 then map_option (\<lambda>(x, r). (JStr x, r)) (scanstring cs)
          else if c = CHR ''{'' then
            (case skip_ws cs of
               [] \<Rightarrow> None
             | d # ds \<Rightarrow>
                 if d = CHR ''}'' then Some (JObj [], ds)
                 else map_option (\<lambda>(ps, r). (JObj (dict_of ps), r)) (parse_object n (d # ds)))
          else if c = CHR ''['' then
            (case skip_ws cs of
               [] \<Rightarrow> None
             | d # ds \<Rightarrow>
                 if d = CHR '']'' then Some (JArr [], ds)
                 else map_option (\<lambda>(vs, r). (JArr vs, r)) (parse_array n (d # ds)))
          else if take 4 s = ''null'' then Some (JNull, drop 4 s)
          else if take 4 s = ''true'' then Some (JBool True, drop 4 s)
          else if take 5 s = ''false'' then Some (JBool False, drop 5 s)
          else if take 3 s = ''NaN'' then Some (JFloat ''NaN'', drop 3 s)
          else if take 8 s = ''Infinity'' then Some (JFloat ''Infinity'', drop 8 s)
          else if take 9 s = ''-Infinity'' then Some (JFloat ''-Infinity'', drop 9 s)
          else scan_number s)"
| "parse_array 0 s = None"
| "parse_array (Suc n) s =
     (case scan_once n s of
        None \<Rightarrow> None
      | Some (v, r) \<Rightarrow>
          (case skip_ws r of
             [] \<Rightarrow> None
           | d # ds \<Rightarrow>
               if d = CHR '']'' then Some ([v], ds)
               else if d = CHR '','' then
                 map_option (\<lambda>(vs, r'). (v # vs, r')) (parse_array n (skip_ws ds))
               else None))"
| "parse_object 0 s = None"
| "parse_object (Suc n) s =
     (case s of
        [] \<Rightarrow> None
      | c # cs \<Rightarrow>
          if c \<noteq> CHR 0x22 then None
          else
            (case scanstring cs of
               None \<Rightarrow> None
             | Some (k, r) \<Rightarrow>
                 (case skip_ws r of
                    [] \<Rightarrow> None
                  | e # es \<Rightarrow>
                      if e \<noteq> CHR '':'' then None
                      else
                        (case scan_once n (skip_ws es) of
                           None \<Rightarrow> None
                         | Some (v, r') \<Rightarrow>
                             (case skip_ws r' of
                                [] \<Rightarrow> None
                              | d # ds \<Rightarrow>
                                  if d = CHR ''}'' then Some ([(k, v)], ds)
                                  else if d = CHR '','' then
                                    map_option (\<lambda>(ps, r''). ((k, v) # ps, r''))
                                      (parse_object n (skip_ws ds))
                                  else None)))))"

text \<open>
  \<^verbatim>\<open>json.loads(s)\<close>: one value between optional white space, and nothing else.
\<close>

definition json_loads :: "string \<Rightarrow> exn + json" where
  "json_loads s =
     (case scan_once (Suc (length s)) (skip_ws s) of
        None \<Rightarrow> Inl JSONDecodeError
      | Some (v, r) \<Rightarrow> if skip_ws r = [] then Inr v else Inl JSONDecodeError)"

text \<open>
  \<^verbatim>\<open>json.dumps\<close>.  A string is quoted with its escapes; with \<open>ensure_ascii\<close> every
  character outside \<^verbatim>\<open>' '..'~'\<close> is escaped, without it only the control characters
  are.
\<close>

definition hex_digit :: "nat \<Rightarrow> char" where
  "hex_digit n = ''0123456789abcdef'' ! (n mod 16)"

definition escape_char :: "bool \<Rightarrow> char \<Rightarrow> string" where
  "escape_char ensure_ascii c =
     (if c = CHR 0x22 then [CHR 0x5C, CHR 0x22]
      else if c = CHR 0x5C then [CHR 0x5C, CHR 0x5C]
      else if c = CHR 0x0A then [CHR 0x5C, CHR ''n'']
      else if c = CHR 0x0D then [CHR 0x5C, CHR ''r'']
      else if c = CHR 0x09 then [CHR 0x5C, CHR ''t'']
      else if c = CHR 0x08 then [CHR 0x5C, CHR ''b'']
      else if c = CHR 0x0C then [CHR 0x5C, CHR ''f'']
      else if (of_char c :: nat) < 32 \<or> (ensure_ascii \<and> (of_char c :: nat) > 126)
      then [CHR 0x5C, CHR ''u'', CHR ''0'', CHR ''0'',
            hex_digit (of_char c div 16), hex_digit (of_char c)]
      else [c])"

definition encode_str :: "bool \<Rightarrow> string \<Rightarrow> string" where
  "encode_str ensure_ascii s = [CHR 0x22] @ concat (map (escape_char ensure_ascii) s) @ [CHR 0x22]"

fun show_nat :: "nat \<Rightarrow> string" where
  "show_nat n =
     (if n < 10 then [char_of (48 + n)] else show_nat (n div 10) @ [char_of (48 + n mod 10)])"

definition show_int :: "int \<Rightarrow> string" where
  "show_int i = (if i < 0 then CHR ''-'' # show_nat (nat (- i)) else show_nat (nat i))"

text \<open>
  \<open>dumps_with ensure_ascii item_separator key_separator\<close>; \<open>dumps_items\<close> and
  \<open>dumps_members\<close> write the elements of a list and the members of a \<^verbatim>\<open>dict\<close>.
\<close>

fun dumps_with :: "bool \<Rightarrow> string \<Rightarrow> string \<Rightarrow> json \<Rightarrow> string"
  and dumps_items :: "bool \<Rightarrow> string \<Rightarrow> string \<Rightarrow> json list \<Rightarrow> string"
  and dumps_members :: "bool \<Rightarrow> string \<Rightarrow> string \<Rightarrow> (string \<times> json) list \<Rightarrow> string"
where
  "dumps_with a i k JNull = ''null''"
| "dumps_with a i k (JBool b) = (if b then ''true'' else ''false'')"
| "dumps_with a i k (JInt n) = show_int n"
| "dumps_with a i k (JFloat x) = x"
| "dumps_with a i k (JStr s) = encode_str a s"
| "dumps_with a i k (JArr vs) = ''['' @ dumps_items a i k vs @ '']''"
| "dumps_with a i k (JObj ps) = ''{'' @ dumps_members a i k ps @ ''}''"
| "dumps_items a i k [] = []"
| "dumps_items a i k [v] = dumps_with a i k v"
| "dumps_items a i k (v # w # vs) = dumps_with a i k v @ i @ dumps_items a i k (w # vs)"
| "dumps_members a i k [] = []"
| "dumps_members a i k [(key, v)] = encode_str a key @ k @ dumps_with a i k v"
| "dumps_members a i k ((key, v) # q # ps) =
     encode_str a key @ k @ dumps_with a i k v @ i @ dumps_members a i k (q # ps)"

text \<open>\<^verbatim>\<open>json.dumps(v)\<close> with the defaults: ASCII only, separators \<^verbatim>\<open>", "\<close> and \<^verbatim>\<open>": "\<close>.\<close>

definition json_dumps :: "json \<Rightarrow> string" where
  "json_dumps v = dumps_with True '', '' '': '' v"

text \<open>
  The rendering in \<^verbatim>\<open>JSONResponse\<close>:
  \<^verbatim>\<open>json.dumps(content, ensure_ascii=False, allow_nan=False, indent=None, separators=(",", ":")).encode("utf-8")\<close>.
  A float that is not finite raises \<^verbatim>\<open>ValueError\<close>.
\<close>

fun has_nan :: "json \<Rightarrow> bool" where
  "has_nan (JFloat x) \<longleftrightarrow> x \<in> {''NaN'', ''Infinity'', ''-Infinity''}"
| "has_nan (JArr vs) \<longleftrightarrow> list_ex has_nan vs"
| "has_nan (JObj ps) \<longleftrightarrow> list_ex (\<lambda>p. has_nan (snd p)) ps"
| "has_nan v \<longleftrightarrow> False"

definition utf8 :: "string \<Rightarrow> string" where
  "utf8 s = concat (map (\<lambda>c. if (of_char c :: nat) < 128 then [c]
                                else [char_of (192 + of_char c div 64 :: nat),
                                      char_of (128 + of_char c mod 64 :: nat)]) s)"

definition render_json :: "json \<Rightarrow> exn + string" where
  "render_json content =
     (if has_nan content then Inl ValueError else Inr (utf8 (dumps_with False '','' '':'' content)))"

text \<open>An environment for the examples: the model service answers every call with \<open>reply\<close>.\<close>

definition replying :: "string \<Rightarrow> env" where
  "replying reply =
     \<lparr>create_fn = (\<lambda>req. Inr \<lparr>choices = [Some reply]\<rparr>),
      loads_fn = json_loads,
      render_fn = render_json\<rparr>"

section \<open>The specification's notions\<close>

text \<open>
  The specification describes the extractor as three attempts, each of which yields
  a parsed value or fails, the first success being the result.  An attempt fails when
  it has no text to parse or when parsing raises.
\<close>

definition attempt :: "(string \<Rightarrow> exn + json) \<Rightarrow> string option \<Rightarrow> json option" where
  "attempt loads snippet =
     (case snippet of
        None \<Rightarrow> None
      | Some s \<Rightarrow> (case loads s of Inl e \<Rightarrow> None | Inr v \<Rightarrow> Some v))"

definition cascade :: "(string \<Rightarrow> exn + json) \<Rightarrow> string \<Rightarrow> json" where
  "cascade loads text =
     (case attempt loads (search_fence text) of
        Some v \<Rightarrow> v
      | None \<Rightarrow>
          (case attempt loads (search_array text) of
             Some v \<Rightarrow> v
           | None \<Rightarrow>
               (case attempt loads (Some text) of
                  Some v \<Rightarrow> v
                | None \<Rightarrow> JArr [])))"

text \<open>A sequence; a record (a JSON object); a sequence of records.\<close>

fun is_sequence :: "json \<Rightarrow> bool" where
  "is_sequence (JArr vs) = True"
| "is_sequence v = False"

fun is_record :: "json \<Rightarrow> bool" where
  "is_record (JObj d) = True"
| "is_record v = False"

fun is_records :: "json \<Rightarrow> bool" where
  "is_records (JArr vs) = list_all is_record vs"
| "is_records v = False"

text \<open>
  An attempt that also fails on the wrong top-level shape, as the specification's list
  of failures has it.
\<close>

definition attempt_records :: "(string \<Rightarrow> exn + json) \<Rightarrow> string option \<Rightarrow> json option" where
  "attempt_records loads snippet =
     (case attempt loads snippet of
        None \<Rightarrow> None
      | Some v \<Rightarrow> if is_records v then Some v else None)"

text \<open>
  A fence marker somewhere in a text; the text behind the first marker.  A fence is
  unterminated when no marker follows the first one.
\<close>

fun has_marker :: "string \<Rightarrow> bool" where
  "has_marker [] = False"
| "has_marker (c # cs) = (take 3 (c # cs) = FENCE \<or> has_marker cs)"

fun after_first_marker :: "string \<Rightarrow> string option" where
  "after_first_marker [] = None"
| "after_first_marker (c # cs) =
     (if take 3 (c # cs) = FENCE then Some (drop 2 cs) else after_first_marker cs)"

text \<open>A marker, one character or more, and another marker: somewhere in a text.\<close>

fun has_closed_fence :: "string \<Rightarrow> bool" where
  "has_closed_fence [] = False"
| "has_closed_fence (c # cs) =
     (take 3 (c # cs) = FENCE \<and> has_marker (drop 3 cs) \<or> has_closed_fence cs)"

definition unterminated_fence :: "string \<Rightarrow> bool" where
  "unterminated_fence text =
     (case after_first_marker text of None \<Rightarrow> False | Some rest \<Rightarrow> \<not> has_marker rest)"

text \<open>
  A text without square brackets, or with just two of them: an opening bracket as its
  first and a closing bracket as its last character.
\<close>

definition outer_brackets_only :: "string \<Rightarrow> bool" where
  "outer_brackets_only s \<longleftrightarrow>
     CHR ''['' \<notin> set s \<and> CHR '']'' \<notin> set s
     \<or> 2 \<le> length s \<and> hd s = CHR ''['' \<and> last s = CHR '']'' \<and>
       CHR ''['' \<notin> set (butlast (tl s)) \<and> CHR '']'' \<notin> set (butlast (tl s))"

section \<open>The extractor: order of the strategies\<close>

lemma extract_fst:
  "fst (extract_json_from_text loads text out) =
     Inr (case try_block loads text of Inl e \<Rightarrow> JArr [] | Inr v \<Rightarrow> v)"
  by (simp add: extract_json_from_text_def split: sum.split)

lemma try_block_Some:
  "try_block loads (Some t) =
     (case search_fence t of
        Some snippet \<Rightarrow> loads snippet
      | None \<Rightarrow> (case search_array t of Some snippet \<Rightarrow> loads snippet | None \<Rightarrow> loads t))"
  by (simp add: try_block_def)

text \<open>
  Claim C1, as the code has it.  The strategies are tried in the order fence, embedded
  array, whole text, and the next one is tried only when the current one finds no
  match.  The text of the first match is parsed, and when that fails the result is the
  empty list: no later strategy is tried.  Whenever the \<^verbatim>\<open>try\<close> block does return a
  parsed value, it is the value that the cascade of three attempts yields.
\<close>

theorem extractor_tries_next_only_without_match:
  "fst (extract_json_from_text loads (Some t) out) =
     Inr (case search_fence t of
            Some interior \<Rightarrow> (case loads interior of Inl e \<Rightarrow> JArr [] | Inr v \<Rightarrow> v)
          | None \<Rightarrow>
              (case search_array t of
                 Some snippet \<Rightarrow> (case loads snippet of Inl e \<Rightarrow> JArr [] | Inr v \<Rightarrow> v)
               | None \<Rightarrow> (case loads t of Inl e \<Rightarrow> JArr [] | Inr v \<Rightarrow> v)))
   \<and> (\<forall>v. try_block loads (Some t) = Inr v \<longrightarrow> cascade loads t = v)"
  by (auto simp: extract_fst try_block_Some cascade_def attempt_def split: option.splits sum.splits)

theorem extractor_tries_next_only_without_match_witness:
  \<open>fst (extract_json_from_text json_loads (Some ''Result: [{"a": 1}]'') []) =
     Inr (JArr [JObj [(''a'', JInt 1)]])
   \<and> cascade json_loads ''Result: [{"a": 1}]'' = JArr [JObj [(''a'', JInt 1)]]\<close>
proof -
  have f: \<open>search_fence ''Result: [{"a": 1}]'' = None\<close> by code_simp
  have a: \<open>search_array ''Result: [{"a": 1}]'' = Some ''[{"a": 1}]''\<close> by code_simp
  have l: \<open>json_loads ''[{"a": 1}]'' = Inr (JArr [JObj [(''a'', JInt 1)]])\<close> by code_simp
  show ?thesis
    using extractor_tries_next_only_without_match
      [of json_loads \<open>''Result: [{"a": 1}]''\<close> "[]", unfolded try_block_Some f a]
    by (simp add: l)
qed

text \<open>
  Claim C1 as stated fails.  In the reply below a fence is found and its interior
  \<open>x\<close> is no JSON; the embedded-array scan of the full text would find an array of
  one object, which the cascade returns; the extractor returns the empty list.
\<close>

theorem no_fallthrough_after_parse_failure:
  \<open>search_fence ''```x``` [{"a": 1}]'' = Some ''x''
   \<and> json_loads ''x'' = Inl JSONDecodeError
   \<and> search_array ''```x``` [{"a": 1}]'' = Some ''[{"a": 1}]''
   \<and> json_loads ''[{"a": 1}]'' = Inr (JArr [JObj [(''a'', JInt 1)]])
   \<and> cascade json_loads ''```x``` [{"a": 1}]'' = JArr [JObj [(''a'', JInt 1)]]
   \<and> fst (extract_json_from_text json_loads (Some ''```x``` [{"a": 1}]'') []) = Inr (JArr [])\<close>
  by code_simp

section \<open>The extractor: failure and the shape of the result\<close>

text \<open>
  Claim C2, as the code has it.  For every argument, a text or \<^verbatim>\<open>None\<close>, the
  extractor returns a value: no exception leaves it.  When the \<^verbatim>\<open>try\<close> block raises,
  it prints the exception and the offending content and returns the empty list.  That
  is the case, in particular, when each of the three attempts has no match or raises in
  parsing.  A value parsed with the wrong top-level shape is no failure (see below).
\<close>

theorem extractor_never_raises:
  "(\<exists>v. fst (extract_json_from_text loads text out) = Inr v)
   \<and> (\<forall>e. try_block loads text = Inl e \<longrightarrow>
          extract_json_from_text loads text out =
            (Inr (JArr []),
             out @ [[PStr ''!! Failed to extract JSON:'', PExn e],
                    [PStr ''!! Offending content:''],
                    [ptext text]]))
   \<and> (attempt loads (search_fence t) = None \<and> attempt loads (search_array t) = None \<and>
        attempt loads (Some t) = None \<longrightarrow>
        fst (extract_json_from_text loads (Some t) out) = Inr (JArr []))"
  by (auto simp: extract_fst extract_json_from_text_def try_block_Some attempt_def
      split: option.splits sum.splits)

text \<open>A plain sentence: nothing is found, the whole text is no JSON, the result is empty.\<close>

theorem extractor_never_raises_witness:
  \<open>extract_json_from_text json_loads (Some ''This is a plain sentence.'') [] =
     (Inr (JArr []),
      [[PStr ''!! Failed to extract JSON:'', PExn JSONDecodeError],
       [PStr ''!! Offending content:''],
       [PStr ''This is a plain sentence.'']])\<close>
proof -
  have b: \<open>try_block json_loads (Some ''This is a plain sentence.'') = Inl JSONDecodeError\<close>
    by code_simp
  show ?thesis
    using extractor_never_raises
      [of json_loads \<open>Some ''This is a plain sentence.''\<close> "[]" \<open>''This is a plain sentence.''\<close>]
    by (simp add: b)
qed

text \<open>
  Claim C2 as stated counts a wrong top-level shape among the failures that give the
  empty sequence.  For the reply below none of the three attempts yields a sequence of
  records (no fence, no embedded array, and the whole text is an object), and the
  extractor returns the object.
\<close>

theorem wrong_shape_is_returned:
  \<open>attempt_records json_loads (search_fence ''{"a": 1}'') = None
   \<and> attempt_records json_loads (search_array ''{"a": 1}'') = None
   \<and> attempt_records json_loads (Some ''{"a": 1}'') = None
   \<and> fst (extract_json_from_text json_loads (Some ''{"a": 1}'') []) = Inr (JObj [(''a'', JInt 1)])
   \<and> fst (extract_json_from_text json_loads (Some ''{"a": 1}'') []) \<noteq> Inr (JArr [])\<close>
  by code_simp

lemma search_array_bracket: "search_array t = Some s \<Longrightarrow> \<exists>r. s = CHR ''['' # r"
  by (induction t) (auto simp: array_at_def split: option.splits if_splits)

lemma json_loads_bracket: "json_loads (CHR ''['' # s) = Inr v \<Longrightarrow> is_sequence v"
  by (auto simp: json_loads_def skip_ws_def json_ws_def split: option.splits list.splits if_splits)

text \<open>
  Claim C3, as the code has it.  The extractor returns the empty list, or else exactly
  the value that \<^verbatim>\<open>json.loads\<close> produced for the fence interior, for the embedded
  array or for the whole text.  Nothing checks its shape.  It is a sequence when it
  comes from the embedded-array scan, whose match starts with a bracket (that a text
  starting with a bracket parses to a list, if it parses, is the hypothesis on
  \<open>loads\<close>); from a fence or from the whole text it can be any value.
\<close>

theorem extractor_returns_what_was_parsed:
  assumes "\<And>s v. loads (CHR ''['' # s) = Inr v \<Longrightarrow> is_sequence v"
  shows "\<exists>v. fst (extract_json_from_text loads (Some t) out) = Inr v \<and>
           (v = JArr []
            \<or> (\<exists>s. search_fence t = Some s \<and> loads s = Inr v)
            \<or> (search_fence t = None \<and> (\<exists>s. search_array t = Some s \<and> loads s = Inr v) \<and>
                is_sequence v)
            \<or> (search_fence t = None \<and> search_array t = None \<and> loads t = Inr v))"
proof (cases "search_fence t")
  case (Some s)
  then show ?thesis by (cases "loads s") (simp_all add: extract_fst try_block_Some)
next
  case None
  note nofence = this
  show ?thesis
  proof (cases "search_array t")
    case None
    with nofence show ?thesis by (cases "loads t") (simp_all add: extract_fst try_block_Some)
  next
    case (Some s)
    then obtain r where s: "s = CHR ''['' # r" using search_array_bracket by blast
    show ?thesis
    proof (cases "loads s")
      case (Inl e)
      with nofence Some show ?thesis by (simp add: extract_fst try_block_Some)
    next
      case (Inr v)
      with s assms have "is_sequence v" by blast
      with nofence Some Inr show ?thesis by (simp add: extract_fst try_block_Some)
    qed
  qed
qed

theorem extractor_returns_what_was_parsed_witness:
  \<open>(\<exists>v. fst (extract_json_from_text json_loads (Some ''Here: [{"a": 1}]'') []) = Inr v \<and>
        (v = JArr []
         \<or> (\<exists>s. search_fence ''Here: [{"a": 1}]'' = Some s \<and> json_loads s = Inr v)
         \<or> (search_fence ''Here: [{"a": 1}]'' = None \<and>
             (\<exists>s. search_array ''Here: [{"a": 1}]'' = Some s \<and> json_loads s = Inr v) \<and>
             is_sequence v)
         \<or> (search_fence ''Here: [{"a": 1}]'' = None \<and>
             search_array ''Here: [{"a": 1}]'' = None \<and>
             json_loads ''Here: [{"a": 1}]'' = Inr v)))
   \<and> fst (extract_json_from_text json_loads (Some ''Here: [{"a": 1}]'') []) =
       Inr (JArr [JObj [(''a'', JInt 1)]])
   \<and> search_fence ''Here: [{"a": 1}]'' = None
   \<and> search_array ''Here: [{"a": 1}]'' = Some ''[{"a": 1}]''\<close>
proof (intro conjI)
  show \<open>\<exists>v. fst (extract_json_from_text json_loads (Some ''Here: [{"a": 1}]'') []) = Inr v \<and>
        (v = JArr []
         \<or> (\<exists>s. search_fence ''Here: [{"a": 1}]'' = Some s \<and> json_loads s = Inr v)
         \<or> (search_fence ''Here: [{"a": 1}]'' = None \<and>
             (\<exists>s. search_array ''Here: [{"a": 1}]'' = Some s \<and> json_loads s = Inr v) \<and>
             is_sequence v)
         \<or> (search_fence ''Here: [{"a": 1}]'' = None \<and>
             search_array ''Here: [{"a": 1}]'' = None \<and>
             json_loads ''Here: [{"a": 1}]'' = Inr v))\<close>
    by (rule extractor_returns_what_was_parsed [OF json_loads_bracket])
  show \<open>fst (extract_json_from_text json_loads (Some ''Here: [{"a": 1}]'') []) =
       Inr (JArr [JObj [(''a'', JInt 1)]])\<close>
    by code_simp
  show \<open>search_fence ''Here: [{"a": 1}]'' = None\<close> by code_simp
  show \<open>search_array ''Here: [{"a": 1}]'' = Some ''[{"a": 1}]''\<close> by code_simp
qed

text \<open>
  Claim C3 as stated fails: a reply that is a JSON number is returned as that number.
\<close>

theorem scalar_reply_is_returned:
  \<open>fst (extract_json_from_text json_loads (Some ''42'') []) = Inr (JInt 42)
   \<and> \<not> is_sequence (JInt 42)\<close>
  by code_simp

section \<open>The extractor: unterminated fences\<close>

lemma has_marker_tl: "has_marker (tl s) \<Longrightarrow> has_marker s"
  by (cases s) simp_all

lemma has_marker_drop: "has_marker (drop n s) \<Longrightarrow> has_marker s"
proof (induction n arbitrary: s)
  case 0
  then show ?case by simp
next
  case (Suc n)
  then show ?case by (cases s) auto
qed

lemma lazy_any_fence_marker: "lazy_any_fence s = Some g \<Longrightarrow> has_marker (tl s)"
proof (induction s arbitrary: g)
  case Nil
  then show ?case by simp
next
  case (Cons c cs)
  show ?case
  proof (cases "take 3 cs = FENCE")
    case True
    then show ?thesis by (cases cs) (simp_all add: FENCE_def)
  next
    case False
    with Cons.prems obtain g' where "lazy_any_fence cs = Some g'" by auto
    then have "has_marker (tl cs)" by (rule Cons.IH)
    then show ?thesis by (simp add: has_marker_tl)
  qed
qed

lemma spaces_group_marker: "spaces_group s = Some g \<Longrightarrow> has_marker (tl s)"
proof (induction s arbitrary: g)
  case Nil
  then show ?case by simp
next
  case (Cons c cs)
  show ?case
  proof (cases "py_isspace c \<and> spaces_group cs \<noteq> None")
    case True
    then obtain g' where "spaces_group cs = Some g'" by auto
    then have "has_marker (tl cs)" by (rule Cons.IH)
    then show ?thesis by (simp add: has_marker_tl)
  next
    case False
    with Cons.prems have "lazy_any_fence (c # cs) = Some g"
      by (auto split: if_splits option.splits)
    then show ?thesis by (rule lazy_any_fence_marker)
  qed
qed

lemma json_tag_group_marker: "json_tag_group s = Some g \<Longrightarrow> has_marker (tl s)"
proof (cases "take 4 s = ''json'' \<and> spaces_group (drop 4 s) \<noteq> None")
  case True
  then obtain g' where "spaces_group (drop 4 s) = Some g'" by auto
  then have "has_marker (tl (drop 4 s))" by (rule spaces_group_marker)
  then have "has_marker (drop 4 (tl s))" by (simp add: tl_drop)
  then show ?thesis by (rule has_marker_drop)
next
  case False
  assume "json_tag_group s = Some g"
  with False have "spaces_group s = Some g"
    by (auto simp: json_tag_group_def split: if_splits option.splits)
  then show ?thesis by (rule spaces_group_marker)
qed

lemma fence_at_marker: "fence_at s = Some g \<Longrightarrow> take 3 s = FENCE \<and> has_marker (drop 4 s)"
  by (auto simp: fence_at_def drop_Suc tl_drop numeral_eq_Suc dest!: json_tag_group_marker split: if_splits)


lemma search_fence_marker: "search_fence s = Some g \<Longrightarrow> has_marker (drop 4 s)"
proof (induction s)
  case Nil
  then show ?case by simp
next
  case (Cons c cs)
  show ?case
  proof (cases "fence_at (c # cs)")
    case None
    with Cons.prems have "search_fence cs = Some g" by simp
    then have "has_marker (drop 4 cs)" by (rule Cons.IH)
    then have "has_marker (drop 1 (drop 4 (c # cs)))" by (simp add: drop_Suc tl_drop numeral_eq_Suc)
    then show ?thesis by (rule has_marker_drop)
  next
    case (Some g')
    then show ?thesis using fence_at_marker [of "c # cs" g'] by simp
  qed
qed

lemma unterminated_no_fence: "unterminated_fence text \<Longrightarrow> search_fence text = None"
proof (induction "text")
  case Nil
  then show ?case by simp
next
  case (Cons c cs)
  show ?case
  proof (cases "take 3 (c # cs) = FENCE")
    case True
    with Cons.prems have no: "\<not> has_marker (drop 2 cs)" by (simp add: unterminated_fence_def)
    show ?thesis
    proof (rule ccontr)
      assume "search_fence (c # cs) \<noteq> None"
      then obtain g where "search_fence (c # cs) = Some g" by auto
      then have "has_marker (drop 4 (c # cs))" by (rule search_fence_marker)
      then have "has_marker (drop 1 (drop 2 cs))" by (simp add: numeral_eq_Suc)
      then have "has_marker (drop 2 cs)" by (rule has_marker_drop)
      with no show False by simp
    qed
  next
    case False
    with Cons.prems have "unterminated_fence cs" by (simp add: unterminated_fence_def)
    then have "search_fence cs = None" by (rule Cons.IH)
    moreover from False have "fence_at (c # cs) = None" by (simp add: fence_at_def)
    ultimately show ?thesis by simp
  qed
qed

lemma unterminated_has_marker: "unterminated_fence text \<Longrightarrow> has_marker text"
  by (induction "text") (auto simp: unterminated_fence_def split: if_splits)

text \<open>
  The first pattern finds a fence exactly when the text holds a marker, then one
  character or more, then another marker.
\<close>

lemma lazy_any_fence_found: "has_marker (tl s) \<Longrightarrow> lazy_any_fence s \<noteq> None"
proof (induction s)
  case Nil
  then show ?case by simp
next
  case (Cons c cs)
  show ?case
  proof (cases "take 3 cs = FENCE")
    case True
    then show ?thesis by simp
  next
    case False
    with Cons.prems have "has_marker (tl cs)" by (cases cs) simp_all
    then have "lazy_any_fence cs \<noteq> None" by (rule Cons.IH)
    with False show ?thesis by simp
  qed
qed

lemma spaces_group_found:
  assumes "has_marker (tl s)"
  shows "spaces_group s \<noteq> None"
proof (cases s)
  case Nil
  with assms show ?thesis by simp
next
  case (Cons c cs)
  from assms have "lazy_any_fence (c # cs) \<noteq> None" unfolding Cons by (rule lazy_any_fence_found)
  then obtain g where "lazy_any_fence (c # cs) = Some g" by blast
  then show ?thesis unfolding Cons by (simp only: spaces_group.simps split: option.split) simp
qed

lemma json_tag_group_found:
  assumes "has_marker (tl s)"
  shows "json_tag_group s \<noteq> None"
proof -
  from assms have "spaces_group s \<noteq> None" by (rule spaces_group_found)
  then obtain g where "spaces_group s = Some g" by blast
  then show ?thesis by (simp add: json_tag_group_def split: option.split)
qed

lemma fence_at_found: "fence_at s \<noteq> None \<longleftrightarrow> take 3 s = FENCE \<and> has_marker (drop 4 s)"
proof
  assume "fence_at s \<noteq> None"
  then obtain g where "fence_at s = Some g" by auto
  then show "take 3 s = FENCE \<and> has_marker (drop 4 s)" by (rule fence_at_marker)
next
  assume a: "take 3 s = FENCE \<and> has_marker (drop 4 s)"
  then have "has_marker (tl (drop 3 s))" by (simp add: tl_drop drop_Suc numeral_eq_Suc)
  then have "json_tag_group (drop 3 s) \<noteq> None" by (rule json_tag_group_found)
  with a show "fence_at s \<noteq> None" by (simp add: fence_at_def)
qed

lemma search_fence_found: "search_fence t \<noteq> None \<longleftrightarrow> has_closed_fence t"
proof (induction t)
  case Nil
  then show ?case by simp
next
  case (Cons c cs)
  have "fence_at (c # cs) \<noteq> None \<longleftrightarrow> take 3 (c # cs) = FENCE \<and> has_marker (drop 3 cs)"
    using fence_at_found [of "c # cs"] by (simp add: numeral_eq_Suc)
  with Cons show ?case by (auto split: option.splits)
qed

text \<open>
  Claim C9, as the code has it.  When no fence marker follows the first one, the first
  pattern finds no match, and the extractor goes on with the embedded-array scan.  The
  whole text is parsed only when that scan finds no match; when the text the scan
  matched fails to parse, the result is the empty list.
\<close>

theorem unterminated_fence_falls_through:
  "unterminated_fence t \<Longrightarrow>
     has_marker t \<and> search_fence t = None \<and>
     fst (extract_json_from_text loads (Some t) out) =
       Inr (case search_array t of
              Some snippet \<Rightarrow> (case loads snippet of Inl e \<Rightarrow> JArr [] | Inr v \<Rightarrow> v)
            | None \<Rightarrow> (case loads t of Inl e \<Rightarrow> JArr [] | Inr v \<Rightarrow> v))"
  by (simp add: unterminated_no_fence unterminated_has_marker extract_fst try_block_Some
      split: option.split sum.split)

theorem unterminated_fence_falls_through_witness:
  \<open>unterminated_fence ''```json [{"a": 1}]''
   \<and> search_fence ''```json [{"a": 1}]'' = None
   \<and> fst (extract_json_from_text json_loads (Some ''```json [{"a": 1}]'') []) =
       Inr (JArr [JObj [(''a'', JInt 1)]])\<close>
proof -
  have u: \<open>unterminated_fence ''```json [{"a": 1}]''\<close> by code_simp
  have a: \<open>search_array ''```json [{"a": 1}]'' = Some ''[{"a": 1}]''\<close> by code_simp
  have l: \<open>json_loads ''[{"a": 1}]'' = Inr (JArr [JObj [(''a'', JInt 1)]])\<close> by code_simp
  show ?thesis
    using unterminated_fence_falls_through [OF u, of json_loads "[]", unfolded a]
    by (simp add: u l)
qed

text \<open>
  Claim C9 as stated fails where it lets the whole-text parse follow a failing scan.
  The text below holds one marker only, inside a string.  The scan matches a text
  that stops at the first closing brace and bracket, which is no JSON; the whole text
  is JSON, and the extractor returns the empty list.
\<close>

theorem unterminated_fence_parse_failure_stops:
  \<open>unterminated_fence ''[{"a": "```", "b": [{"c": 1}]}]''
   \<and> search_fence ''[{"a": "```", "b": [{"c": 1}]}]'' = None
   \<and> search_array ''[{"a": "```", "b": [{"c": 1}]}]'' = Some ''[{"a": "```", "b": [{"c": 1}]''
   \<and> json_loads ''[{"a": "```", "b": [{"c": 1}]'' = Inl JSONDecodeError
   \<and> json_loads ''[{"a": "```", "b": [{"c": 1}]}]'' =
       Inr (JArr [JObj [(''a'', JStr ''```''), (''b'', JArr [JObj [(''c'', JInt 1)]])]])
   \<and> fst (extract_json_from_text json_loads (Some ''[{"a": "```", "b": [{"c": 1}]}]'') []) =
       Inr (JArr [])\<close>
  by code_simp

section \<open>The extractor: determinism\<close>

text \<open>
  Claim C10.  The value the extractor returns depends on the text alone: it is the
  same for any two states of the console, the only state the extractor touches, and
  a second run after the first returns what the first returned.
\<close>

theorem extractor_deterministic:
  "fst (extract_json_from_text loads text out1) = fst (extract_json_from_text loads text out2)
   \<and> fst (extract_json_from_text loads text (snd (extract_json_from_text loads text out1))) =
       fst (extract_json_from_text loads text out1)"
  by (simp add: extract_fst)

theorem extractor_deterministic_witness:
  \<open>fst (extract_json_from_text json_loads (Some ''not json'') []) =
     fst (extract_json_from_text json_loads (Some ''not json'') [[PStr ''earlier output'']])
   \<and> fst (extract_json_from_text json_loads (Some ''not json'')
            (snd (extract_json_from_text json_loads (Some ''not json'') []))) =
       fst (extract_json_from_text json_loads (Some ''not json'') [])\<close>
  using extractor_deterministic [of json_loads \<open>Some ''not json''\<close> "[]" \<open>[[PStr ''earlier output'']]\<close>]
  by simp

section \<open>The declaration sanitizer\<close>

lemma map_of_dict_pop: "map_of (dict_pop key d) k = (if k = key then None else map_of d k)"
  by (induction d) (auto simp: dict_pop_def)

lemma dict_pop_absent: "key \<notin> fst ` set d \<Longrightarrow> dict_pop key d = d"
  by (induction d) (auto simp: dict_pop_def)

lemma dict_pop_removes: "key \<notin> fst ` set (dict_pop key d)"
  by (auto simp: dict_pop_def)

lemma pop_each_records:
  "pop_each (map JObj ds) = Inr (map (\<lambda>d. JObj (dict_pop ''type'' d)) ds)"
  by (induction ds) simp_all

lemma is_record_conv: "is_record v \<longleftrightarrow> (\<exists>d. v = JObj d)"
  by (cases v) simp_all

lemma records_conv: "list_all is_record vs \<longleftrightarrow> (\<exists>ds. vs = map JObj ds)"
proof (induction vs)
  case Nil
  then show ?case by simp
next
  case (Cons v vs)
  show ?case
  proof
    assume "list_all is_record (v # vs)"
    then have "is_record v" and "list_all is_record vs" by simp_all
    from \<open>list_all is_record vs\<close> Cons obtain ds where "vs = map JObj ds" by blast
    moreover from \<open>is_record v\<close> obtain d where "v = JObj d" by (auto simp: is_record_conv)
    ultimately have "v = JObj d" "vs = map JObj ds" by simp_all
    then have "v # vs = map JObj (d # ds)" by simp
    then show "\<exists>ds. v # vs = map JObj ds" by (rule exI)
  next
    assume "\<exists>ds. v # vs = map JObj ds"
    then show "list_all is_record (v # vs)" by (auto simp: list_all_iff)
  qed
qed

lemma decl_pop_fails: "\<not> is_record v \<Longrightarrow> \<exists>e. decl_pop v = Inl e"
  by (cases v) simp_all

lemma pop_each_fails: "\<not> list_all is_record vs \<Longrightarrow> \<exists>e. pop_each vs = Inl e"
proof (induction vs)
  case Nil
  then show ?case by simp
next
  case (Cons v vs)
  show ?case
  proof (cases "is_record v")
    case True
    with Cons.prems have "\<not> list_all is_record vs" by simp
    then obtain e where "pop_each vs = Inl e" using Cons.IH by blast
    then show ?thesis by (simp split: sum.split)
  next
    case False
    then obtain e where "decl_pop v = Inl e" using decl_pop_fails by blast
    then show ?thesis by simp
  qed
qed

text \<open>
  Claim C4, as the code has it.  On a record the removal succeeds: the result has no
  \<^verbatim>\<open>type\<close> key and is otherwise the same, and a record without that key is unchanged.
  On a sequence of records the sanitizer does this to every element.  On an element
  that is no record the removal raises, so the sanitizer succeeds on a sequence exactly
  when every element is a record.
\<close>

theorem sanitizer_removes_type_from_records:
  "decl_pop (JObj d) = Inr (JObj (dict_pop ''type'' d))
   \<and> ''type'' \<notin> fst ` set (dict_pop ''type'' d)
   \<and> (\<forall>k. k \<noteq> ''type'' \<longrightarrow> map_of (dict_pop ''type'' d) k = map_of d k)
   \<and> (''type'' \<notin> fst ` set d \<longrightarrow> decl_pop (JObj d) = Inr (JObj d))
   \<and> remove_type (JArr (map JObj ds)) = Inr (JArr (map (\<lambda>d. JObj (dict_pop ''type'' d)) ds))
   \<and> ((\<exists>r. remove_type (JArr vs) = Inr r) \<longleftrightarrow> list_all is_record vs)"
proof -
  have "(\<exists>r. remove_type (JArr vs) = Inr r) \<longleftrightarrow> list_all is_record vs"
  proof (cases "list_all is_record vs")
    case True
    then obtain ds' where "vs = map JObj ds'" by (auto simp: records_conv)
    with True show ?thesis by (simp add: pop_each_records)
  next
    case False
    then obtain e where "pop_each vs = Inl e" using pop_each_fails by blast
    with False show ?thesis by simp
  qed
  then show ?thesis
    by (simp add: dict_pop_removes map_of_dict_pop dict_pop_absent pop_each_records)
qed

theorem sanitizer_removes_type_from_records_witness:
  \<open>remove_type (JArr [JObj [(''type'', JStr ''PARAMETERS''), (''name'', JStr ''P_X'')],
                       JObj [(''name'', JStr ''S_Y'')]]) =
     Inr (JArr [JObj [(''name'', JStr ''P_X'')], JObj [(''name'', JStr ''S_Y'')]])
   \<and> decl_pop (JObj [(''name'', JStr ''S_Y'')]) = Inr (JObj [(''name'', JStr ''S_Y'')])\<close>
  using sanitizer_removes_type_from_records
    [of \<open>[(''name'', JStr ''S_Y'')]\<close>
        \<open>[[(''type'', JStr ''PARAMETERS''), (''name'', JStr ''P_X'')], [(''name'', JStr ''S_Y'')]]\<close>
        \<open>[]\<close>]
  by (simp add: dict_pop_def)

text \<open>
  Claim C4 as stated fails for non-object elements: the reply below is extracted as a
  sequence whose first element is a number, and the removal raises on it.
\<close>

theorem sanitizer_fails_on_non_object:
  \<open>fst (extract_json_from_text json_loads (Some ''[1, {"type": "PARAMETERS"}]'') []) =
     Inr (JArr [JInt 1, JObj [(''type'', JStr ''PARAMETERS'')]])
   \<and> \<not> is_record (JInt 1)
   \<and> decl_pop (JInt 1) = Inl AttributeError
   \<and> remove_type (JArr [JInt 1, JObj [(''type'', JStr ''PARAMETERS'')]]) = Inl AttributeError\<close>
  by code_simp

section \<open>The endpoint\<close>

lemma py_strip_blank: "py_strip s = [] \<longleftrightarrow> list_all py_isspace s"
proof
  assume "py_strip s = []"
  then have "dropWhile py_isspace (rev (dropWhile py_isspace s)) = []"
    by (simp add: py_strip_def)
  then have all: "\<And>c. c \<in> set (dropWhile py_isspace s) \<Longrightarrow> py_isspace c"
    by (auto simp only: dropWhile_eq_Nil_conv set_rev)
  have "dropWhile py_isspace s = []"
  proof (rule ccontr)
    assume ne: "dropWhile py_isspace s \<noteq> []"
    then have "\<not> py_isspace (hd (dropWhile py_isspace s))" by (rule hd_dropWhile)
    moreover from ne have "hd (dropWhile py_isspace s) \<in> set (dropWhile py_isspace s)"
      by (rule hd_in_set)
    ultimately show False using all by blast
  qed
  then show "list_all py_isspace s"
    by (auto simp only: dropWhile_eq_Nil_conv list_all_iff)
next
  assume "list_all py_isspace s"
  then have "dropWhile py_isspace s = []"
    by (auto simp only: dropWhile_eq_Nil_conv list_all_iff)
  then show "py_strip s = []" by (simp only: py_strip_def rev.simps dropWhile.simps)
qed

text \<open>
  Claim C5.  When \<open>code\<close> is empty or consists of white space, the endpoint raises
  \<^verbatim>\<open>HTTPException\<close> with status 400 and leaves the state as it was: no call to the
  model has been made (and the model service is not consulted, whatever it is).
\<close>

theorem blank_code_is_rejected_without_model_call:
  "list_all py_isspace (code input) \<Longrightarrow>
     abap_declarations_api e input st =
       (Inl (HTTPException 400 (''Missing or empty '' @ [CHR 0x27] @ ''code'' @ [CHR 0x27] @ '' field.'')), st)
     \<and> calls (snd (abap_declarations_api e input st)) = calls st"
  by (simp add: abap_declarations_api_def py_strip_blank)

theorem blank_code_is_rejected_without_model_call_witness:
  \<open>list_all py_isspace [CHR 0x20, CHR 0x09, CHR 0x0A]
   \<and> fst (abap_declarations_api (replying ''[]'')
        \<lparr>code = [CHR 0x20, CHR 0x09, CHR 0x0A], pgm_name = ''ZPROG'', inc_name = ''ZINC'',
         type_field = ''REPORT''\<rparr>
        \<lparr>console = [], calls = []\<rparr>) =
       Inl (HTTPException 400 (''Missing or empty '' @ [CHR 0x27] @ ''code'' @ [CHR 0x27] @ '' field.''))
   \<and> calls (snd (abap_declarations_api (replying ''[]'')
        \<lparr>code = [CHR 0x20, CHR 0x09, CHR 0x0A], pgm_name = ''ZPROG'', inc_name = ''ZINC'',
         type_field = ''REPORT''\<rparr>
        \<lparr>console = [], calls = []\<rparr>)) = []\<close>
proof -
  have b: \<open>list_all py_isspace [CHR 0x20, CHR 0x09, CHR 0x0A]\<close> by (simp add: py_isspace_def)
  show ?thesis
    using blank_code_is_rejected_without_model_call
      [of \<open>\<lparr>code = [CHR 0x20, CHR 0x09, CHR 0x0A], pgm_name = ''ZPROG'', inc_name = ''ZINC'',
         type_field = ''REPORT''\<rparr>\<close> \<open>replying ''[]''\<close> \<open>\<lparr>console = [], calls = []\<rparr>\<close>] b
    by simp
qed

lemma abap_declarations_api_nonblank:
  assumes "py_strip (code input) \<noteq> []"
  shows "fst (abap_declarations_api e input st) =
     (case create_fn e (call_openai (abap_lm_prompt (code input))) of
        Inl ex \<Rightarrow> Inl ex
      | Inr response \<Rightarrow>
          (case choices response of
             [] \<Rightarrow> Inl IndexError
           | reply # others \<Rightarrow>
               (case remove_type (case try_block (loads_fn e) reply of
                                    Inl ex \<Rightarrow> JArr [] | Inr v \<Rightarrow> v) of
                  Inl ex \<Rightarrow> Inl ex
                | Inr decls \<Rightarrow>
                    (case render_fn e (response_body input decls) of
                       Inl ex \<Rightarrow> Inl ex
                     | Inr body \<Rightarrow> Inr (JSONResponse 200 body)))))"
    and "calls (snd (abap_declarations_api e input st)) =
           calls st @ [call_openai (abap_lm_prompt (code input))]"
  using assms
  by (simp_all add: abap_declarations_api_def abap_llm_declarations_def Let_def
      extract_json_from_text_def split: sum.split list.split prod.split)

lemma remove_type_records: "is_records v \<Longrightarrow> \<exists>decls. remove_type v = Inr decls"
proof (cases v)
  case (JArr vs)
  assume "is_records v"
  with JArr obtain ds where "vs = map JObj ds" by (auto simp: records_conv)
  with JArr show ?thesis by (simp add: pop_each_records)
qed simp_all

text \<open>
  Claim C6, as the code has it.  Let the \<open>code\<close> of a request be not blank.  When the
  model service returns a completion with a reply, sanitizing the value extracted from
  the reply succeeds and the body renders, the endpoint answers with status 200 and the
  rendering of the object whose \<^verbatim>\<open>pgm_name\<close>, \<^verbatim>\<open>inc_name\<close> and \<^verbatim>\<open>type\<close> are the
  request's and whose \<^verbatim>\<open>selectionscreen\<close> is the sanitized value.  Sanitizing succeeds
  when the extracted value is a sequence of records.  When the call to the model
  raises, or sanitizing the extracted value raises, that exception leaves the endpoint.
  In every case exactly one call to the model has been made.
\<close>

theorem endpoint_echoes_request_fields:
  assumes "py_strip (code input) \<noteq> []"
  shows "(create_fn e (call_openai (abap_lm_prompt (code input))) = Inr response \<and>
          choices response = reply # others \<and>
          fst (extract_json_from_text (loads_fn e) reply out) = Inr v \<and>
          remove_type v = Inr decls \<and>
          render_fn e (JObj [(''pgm_name'', JStr (pgm_name input)),
                             (''inc_name'', JStr (inc_name input)),
                             (''type'', JStr (type_field input)),
                             (''selectionscreen'', decls)]) = Inr body
          \<longrightarrow> fst (abap_declarations_api e input st) = Inr (JSONResponse 200 body))
       \<and> (is_records v \<longrightarrow> (\<exists>ds. remove_type v = Inr ds))
       \<and> (create_fn e (call_openai (abap_lm_prompt (code input))) = Inl ex
          \<longrightarrow> fst (abap_declarations_api e input st) = Inl ex)
       \<and> (create_fn e (call_openai (abap_lm_prompt (code input))) = Inr response \<and>
          choices response = reply # others \<and>
          fst (extract_json_from_text (loads_fn e) reply out) = Inr v \<and>
          remove_type v = Inl ex
          \<longrightarrow> fst (abap_declarations_api e input st) = Inl ex)
       \<and> calls (snd (abap_declarations_api e input st)) =
           calls st @ [call_openai (abap_lm_prompt (code input))]"
  using abap_declarations_api_nonblank [OF assms, of e st]
  by (auto simp: extract_fst response_body_def remove_type_records)

theorem endpoint_echoes_request_fields_witness:
  \<open>fst (abap_declarations_api (replying ''[{"type": "PARAMETERS", "name": "P_X"}]'')
          \<lparr>code = ''PARAMETERS p_x.'', pgm_name = ''ZPROG'', inc_name = ''ZINC'',
           type_field = ''REPORT''\<rparr>
          \<lparr>console = [], calls = []\<rparr>) =
     Inr (JSONResponse 200
       ''{"pgm_name":"ZPROG","inc_name":"ZINC","type":"REPORT","selectionscreen":[{"name":"P_X"}]}'')
   \<and> calls (snd (abap_declarations_api (replying ''[{"type": "PARAMETERS", "name": "P_X"}]'')
          \<lparr>code = ''PARAMETERS p_x.'', pgm_name = ''ZPROG'', inc_name = ''ZINC'',
           type_field = ''REPORT''\<rparr>
          \<lparr>console = [], calls = []\<rparr>)) =
     [call_openai (abap_lm_prompt ''PARAMETERS p_x.'')]\<close>
proof -
  have h1: \<open>py_strip (code \<lparr>code = ''PARAMETERS p_x.'', pgm_name = ''ZPROG'', inc_name = ''ZINC'',
           type_field = ''REPORT''\<rparr>) \<noteq> []\<close>
    by code_simp
  have h2: \<open>create_fn (replying ''[{"type": "PARAMETERS", "name": "P_X"}]'')
      (call_openai (abap_lm_prompt (code \<lparr>code = ''PARAMETERS p_x.'', pgm_name = ''ZPROG'',
         inc_name = ''ZINC'', type_field = ''REPORT''\<rparr>))) =
      Inr \<lparr>choices = [Some ''[{"type": "PARAMETERS", "name": "P_X"}]'']\<rparr>\<close>
    by (simp add: replying_def)
  have h3: \<open>choices \<lparr>choices = [Some ''[{"type": "PARAMETERS", "name": "P_X"}]'']\<rparr> =
      Some ''[{"type": "PARAMETERS", "name": "P_X"}]'' # []\<close>
    by simp
  have h4: \<open>fst (extract_json_from_text
       (loads_fn (replying ''[{"type": "PARAMETERS", "name": "P_X"}]''))
       (Some ''[{"type": "PARAMETERS", "name": "P_X"}]'') []) =
     Inr (JArr [JObj [(''type'', JStr ''PARAMETERS''), (''name'', JStr ''P_X'')]])\<close>
    by code_simp
  have h5: \<open>remove_type (JArr [JObj [(''type'', JStr ''PARAMETERS''), (''name'', JStr ''P_X'')]]) =
     Inr (JArr [JObj [(''name'', JStr ''P_X'')]])\<close>
    by code_simp
  have h6: \<open>render_fn (replying ''[{"type": "PARAMETERS", "name": "P_X"}]'')
      (JObj [(''pgm_name'', JStr (pgm_name \<lparr>code = ''PARAMETERS p_x.'', pgm_name = ''ZPROG'',
                inc_name = ''ZINC'', type_field = ''REPORT''\<rparr>)),
             (''inc_name'', JStr (inc_name \<lparr>code = ''PARAMETERS p_x.'', pgm_name = ''ZPROG'',
                inc_name = ''ZINC'', type_field = ''REPORT''\<rparr>)),
             (''type'', JStr (type_field \<lparr>code = ''PARAMETERS p_x.'', pgm_name = ''ZPROG'',
                inc_name = ''ZINC'', type_field = ''REPORT''\<rparr>)),
             (''selectionscreen'', JArr [JObj [(''name'', JStr ''P_X'')]])]) =
     Inr ''{"pgm_name":"ZPROG","inc_name":"ZINC","type":"REPORT","selectionscreen":[{"name":"P_X"}]}''\<close>
    by code_simp
  show ?thesis
    using endpoint_echoes_request_fields
      [where input = \<open>\<lparr>code = ''PARAMETERS p_x.'', pgm_name = ''ZPROG'', inc_name = ''ZINC'',
           type_field = ''REPORT''\<rparr>\<close>
         and e = \<open>replying ''[{"type": "PARAMETERS", "name": "P_X"}]''\<close>
         and response = \<open>\<lparr>choices = [Some ''[{"type": "PARAMETERS", "name": "P_X"}]'']\<rparr>\<close>
         and reply = \<open>Some ''[{"type": "PARAMETERS", "name": "P_X"}]''\<close>
         and others = \<open>[]\<close>
         and out = \<open>[]\<close>
         and v = \<open>JArr [JObj [(''type'', JStr ''PARAMETERS''), (''name'', JStr ''P_X'')]]\<close>
         and decls = \<open>JArr [JObj [(''name'', JStr ''P_X'')]]\<close>
         and body = \<open>''{"pgm_name":"ZPROG","inc_name":"ZINC","type":"REPORT","selectionscreen":[{"name":"P_X"}]}''\<close>
         and st = \<open>\<lparr>console = [], calls = []\<rparr>\<close>,
       OF h1]
      h2 h3 h4 h5 h6
    by simp
qed

text \<open>
  Claim C6 as stated fails: the code of the request below is not blank, the model
  replies with a JSON number, and the loop over the extracted value raises
  \<^verbatim>\<open>TypeError\<close>, which leaves the endpoint.
\<close>

theorem endpoint_fails_on_scalar_reply:
  \<open>py_strip ''PARAMETERS p_x.'' \<noteq> []
   \<and> fst (abap_declarations_api (replying ''42'')
          \<lparr>code = ''PARAMETERS p_x.'', pgm_name = ''ZPROG'', inc_name = ''ZINC'',
           type_field = ''REPORT''\<rparr>
          \<lparr>console = [], calls = []\<rparr>) = Inl TypeError\<close>
  by code_simp

section \<open>The prompt builder is verbatim\<close>

lemma length_INSTRUCTIONS: "length INSTRUCTIONS = 527"
  by (simp add: INSTRUCTIONS_def)

text \<open>
  Claim C7.  The prompt is a function of the source text alone: the 527 characters of
  the fixed instructions followed by the source text as it is.  Dropping the
  instructions gives the source text back, nothing is cut, and different source texts
  give different prompts.
\<close>

theorem prompt_embeds_source_verbatim:
  "abap_lm_prompt src = INSTRUCTIONS @ src
   \<and> drop (length INSTRUCTIONS) (abap_lm_prompt src) = src
   \<and> length (abap_lm_prompt src) = 527 + length src
   \<and> (abap_lm_prompt a = abap_lm_prompt b \<longleftrightarrow> a = b)"
  by (simp add: abap_lm_prompt_def length_INSTRUCTIONS)

theorem prompt_embeds_source_verbatim_witness:
  \<open>drop 527 (abap_lm_prompt ''PARAMETERS p_x "quoted" {x}.'') = ''PARAMETERS p_x "quoted" {x}.''
   \<and> length (abap_lm_prompt ''PARAMETERS p_x "quoted" {x}.'') = 555\<close>
  using prompt_embeds_source_verbatim [of \<open>''PARAMETERS p_x "quoted" {x}.''\<close> "[]" "[]"]
  by (simp add: length_INSTRUCTIONS)

section \<open>Running the extractor on its own output\<close>

text \<open>
  In a text without backticks the first pattern finds nothing; in a text whose only
  square brackets are its first and its last character the second pattern finds
  nothing or the whole text.
\<close>

lemma no_backtick_no_fence: "CHR 0x60 \<notin> set s \<Longrightarrow> search_fence s = None"
  by (induction s) (auto simp: fence_at_def FENCE_def numeral_eq_Suc)

lemma no_bracket_no_array: "CHR ''['' \<notin> set s \<Longrightarrow> search_array s = None"
  by (induction s) (auto simp: array_at_def)

lemma spaces_close_all:
  "CHR '']'' \<notin> set z \<Longrightarrow>
     spaces_close (z @ '']'') = None \<or> spaces_close (z @ '']'') = Some (z @ '']'')"
  by (induction z) (auto simp: py_isspace_def)

lemma lazy_any_close_all:
  "CHR '']'' \<notin> set y \<Longrightarrow>
     lazy_any_close (y @ '']'') = None \<or> lazy_any_close (y @ '']'') = Some (y @ '']'')"
proof (induction y)
  case Nil
  then show ?case by simp
next
  case (Cons c y)
  then have ih: "lazy_any_close (y @ '']'') = None \<or> lazy_any_close (y @ '']'') = Some (y @ '']'')"
    by simp
  show ?case
  proof (cases y)
    case Nil
    then show ?thesis by simp
  next
    case (Cons d z)
    with Cons.prems have "CHR '']'' \<notin> set z" by simp
    then have sc: "spaces_close (z @ '']'') = None \<or> spaces_close (z @ '']'') = Some (z @ '']'')"
      by (rule spaces_close_all)
    from ih sc show ?thesis unfolding Cons by (auto split: option.split)
  qed
qed

lemma spaces_open_all:
  "CHR '']'' \<notin> set m \<Longrightarrow>
     spaces_open (m @ '']'') = None \<or> spaces_open (m @ '']'') = Some (m @ '']'')"
proof (induction m)
  case Nil
  then show ?case by (simp add: py_isspace_def)
next
  case (Cons c m)
  then have ih: "spaces_open (m @ '']'') = None \<or> spaces_open (m @ '']'') = Some (m @ '']'')"
    by simp
  from Cons.prems have "CHR '']'' \<notin> set m" by simp
  then have lc: "lazy_any_close (m @ '']'') = None \<or> lazy_any_close (m @ '']'') = Some (m @ '']'')"
    by (rule lazy_any_close_all)
  from ih lc show ?case by (auto split: option.split)
qed

lemma search_array_all_or_nothing:
  assumes "outer_brackets_only s"
  shows "search_array s = None \<or> search_array s = Some s"
proof (cases "CHR ''['' \<notin> set s")
  case True
  then show ?thesis by (simp add: no_bracket_no_array)
next
  case False
  with assms have len: "2 \<le> length s" and h: "hd s = CHR ''[''" and l: "last s = CHR '']''"
    and no: "CHR ''['' \<notin> set (butlast (tl s))" "CHR '']'' \<notin> set (butlast (tl s))"
    by (auto simp: outer_brackets_only_def)
  define m where "m = butlast (tl s)"
  from len have "s \<noteq> []" and "tl s \<noteq> []" by (cases s; cases "tl s"; simp)+
  then have "last (tl s) = last s" by (simp add: last_tl)
  moreover from \<open>tl s \<noteq> []\<close> have "tl s = m @ [last (tl s)]"
    unfolding m_def by (rule append_butlast_last_id [symmetric])
  ultimately have "tl s = m @ '']''" using l by simp
  with h \<open>s \<noteq> []\<close> have s: "s = CHR ''['' # m @ '']''"
    by (cases s) simp_all
  from no have m: "CHR ''['' \<notin> set m" "CHR '']'' \<notin> set m" by (simp_all add: m_def)
  then have "search_array (m @ '']'') = None" by (simp add: no_bracket_no_array)
  moreover from m have "spaces_open (m @ '']'') = None \<or> spaces_open (m @ '']'') = Some (m @ '']'')"
    by (simp add: spaces_open_all)
  ultimately show ?thesis unfolding s by (auto simp: array_at_def)
qed

lemma reextraction_all_or_nothing:
  assumes "loads s = Inr v"
    and "search_fence s = None"
    and "search_array s = None \<or> search_array s = Some s"
  shows "fst (extract_json_from_text loads (Some s) out) = Inr v"
  using assms by (auto simp: extract_fst try_block_Some)

text \<open>
  Claim C8, as the code has it.  Let a value be written by \<^verbatim>\<open>json.dumps\<close>, and let
  \<^verbatim>\<open>json.loads\<close> read that text back to the value.  When the text holds no backtick
  and no square bracket other than an opening one at its start and a closing one at
  its end, the extractor run on the text returns the value.
\<close>

theorem reextraction_of_text_without_inner_brackets:
  assumes "loads (json_dumps v) = Inr v"
    and "CHR 0x60 \<notin> set (json_dumps v)"
    and "outer_brackets_only (json_dumps v)"
  shows "fst (extract_json_from_text loads (Some (json_dumps v)) out) = Inr v"
  using assms(1) no_backtick_no_fence [OF assms(2)] search_array_all_or_nothing [OF assms(3)]
  by (rule reextraction_all_or_nothing)

theorem reextraction_of_text_without_inner_brackets_witness:
  \<open>fst (extract_json_from_text json_loads
          (Some (json_dumps (JArr [JObj [(''name'', JStr ''P_X''), (''object'', JStr ''MARA-MATNR'')],
                                   JObj [(''name'', JStr ''S_Y''), (''object'', JStr ''T001-BUKRS'')]])))
          []) =
     Inr (JArr [JObj [(''name'', JStr ''P_X''), (''object'', JStr ''MARA-MATNR'')],
                JObj [(''name'', JStr ''S_Y''), (''object'', JStr ''T001-BUKRS'')]])\<close>
proof -
  have h1: \<open>json_loads (json_dumps (JArr [JObj [(''name'', JStr ''P_X''), (''object'', JStr ''MARA-MATNR'')],
                                   JObj [(''name'', JStr ''S_Y''), (''object'', JStr ''T001-BUKRS'')]])) =
     Inr (JArr [JObj [(''name'', JStr ''P_X''), (''object'', JStr ''MARA-MATNR'')],
                JObj [(''name'', JStr ''S_Y''), (''object'', JStr ''T001-BUKRS'')]])\<close>
    by code_simp
  have h2: \<open>CHR 0x60 \<notin> set (json_dumps (JArr [JObj [(''name'', JStr ''P_X''), (''object'', JStr ''MARA-MATNR'')],
                                   JObj [(''name'', JStr ''S_Y''), (''object'', JStr ''T001-BUKRS'')]]))\<close>
    by code_simp
  have h3: \<open>outer_brackets_only (json_dumps (JArr [JObj [(''name'', JStr ''P_X''), (''object'', JStr ''MARA-MATNR'')],
                                   JObj [(''name'', JStr ''S_Y''), (''object'', JStr ''T001-BUKRS'')]]))\<close>
    by code_simp
  show ?thesis
    using reextraction_of_text_without_inner_brackets
      [of json_loads
          \<open>JArr [JObj [(''name'', JStr ''P_X''), (''object'', JStr ''MARA-MATNR'')],
                 JObj [(''name'', JStr ''S_Y''), (''object'', JStr ''T001-BUKRS'')]]\<close> "[]"]
      h1 h2 h3
    by simp
qed

text \<open>
  Claim C8 as stated fails.  The first reply is extracted, from its fence, as one
  record whose description contains a closing brace and bracket.  In the value's
  serialisation the embedded-array scan stops at that brace and bracket; what it finds
  is no JSON, and the second extraction returns the empty list.
\<close>

theorem reextraction_differs:
  \<open>fst (extract_json_from_text json_loads
          (Some ''```json [{"name": "P", "description": "x}]"}] ```'') []) =
     Inr (JArr [JObj [(''name'', JStr ''P''), (''description'', JStr ''x}]'')]])
   \<and> json_dumps (JArr [JObj [(''name'', JStr ''P''), (''description'', JStr ''x}]'')]]) =
       ''[{"name": "P", "description": "x}]"}]''
   \<and> json_loads ''[{"name": "P", "description": "x}]"}]'' =
       Inr (JArr [JObj [(''name'', JStr ''P''), (''description'', JStr ''x}]'')]])
   \<and> fst (extract_json_from_text json_loads
          (Some (json_dumps (JArr [JObj [(''name'', JStr ''P''), (''description'', JStr ''x}]'')]])))
          []) = Inr (JArr [])\<close>
  by code_simp

end
